theory Spec2Isabelle
  imports Main "HOL-Library.Word" "HOL-Library.AList"
begin

unbundle bit_operations_syntax

section \<open>Python values\<close>

text \<open>
  The credential vault of \<^verbatim>\<open>src/utils/auth.py\<close> and \<^verbatim>\<open>src/auth_gate.py\<close> keeps one
  JSON object in a file. What \<^verbatim>\<open>json.load\<close> returns is a value of the type below.
  Python's \<^verbatim>\<open>float\<close> is the type parameter \<open>'f\<close>: nothing is assumed about its
  arithmetic, which is taken from the library record \<open>pylib\<close>. A \<^verbatim>\<open>dict\<close> is an
  association list in insertion order, read with \<open>map_of\<close>.

  A \<^verbatim>\<open>str\<close> whose code points are all below 256 is \<open>Str s\<close>, a list of the
  \<open>char\<close> of HOL: the literals of the source, base64 text and the PINs are of
  this kind, and so is the text of the two fields taken to be. A \<^verbatim>\<open>str\<close> with a
  code point above 255 is \<open>Wide cps\<close>, the list of its code points:
  \<^verbatim>\<open>json.load\<close> returns such values from the store file, lone surrogates
  (U+D800..U+DFFF, from an escape like \<^verbatim>\<open>\ud800\<close>) among them.
\<close>

type_synonym byte = "8 word"

datatype pystr = Str string | Wide "nat list"

datatype 'f json =
    JNull
  | JBool bool
  | JInt int
  | JFloat 'f
  | JString pystr
  | JArr "'f json list"
  | JObj "(pystr \<times> 'f json) list"

abbreviation JStr :: "string \<Rightarrow> 'f json" where
  "JStr s \<equiv> JString (Str s)"

text \<open>Exceptions are values; the three classes that the handlers of
  \<^verbatim>\<open>check_api_key_balance\<close> tell apart are \<open>HTTPError\<close> (with the text of its response,
  when it has one, and \<^verbatim>\<open>str(e)\<close>), any other \<open>RequestException\<close>, and the rest.\<close>

datatype exn =
    AttributeError
  | TypeError
  | ValueError
  | OverflowError
  | OSError
  | BinasciiError
  | UnicodeEncodeError
  | HTTPError "string option" string
  | RequestException string
  | OtherException string

text \<open>The library functions the code calls and this repository does not define:
  \<^verbatim>\<open>hashlib.pbkdf2_hmac("sha256", password, salt, iterations)\<close>, whose result is 32
  bytes, and the arithmetic of \<^verbatim>\<open>float\<close>.\<close>

record 'f pylib =
  pbkdf2_hmac_sha256 :: "byte list \<Rightarrow> byte list \<Rightarrow> nat \<Rightarrow> 256 word"
  float_truth :: "'f \<Rightarrow> bool"
  float_zero :: 'f
  float_sub :: "'f \<Rightarrow> 'f \<Rightarrow> 'f"
  float_gt :: "'f \<Rightarrow> 'f \<Rightarrow> bool"
  float_of_int :: "int \<Rightarrow> 'f option"
  float_of_str :: "pystr \<Rightarrow> 'f option"

text \<open>\<^verbatim>\<open>bool(x)\<close>, as \<^verbatim>\<open>not (pin_hash and pin_salt)\<close> and \<^verbatim>\<open>err or ...\<close> use it;
  \<open>None\<close> is what \<^verbatim>\<open>dict.get\<close> returns for an absent key.\<close>

fun truthy :: "'f pylib \<Rightarrow> 'f json \<Rightarrow> bool" where
  "truthy L JNull = False"
| "truthy L (JBool b) = b"
| "truthy L (JInt i) = (i \<noteq> 0)"
| "truthy L (JFloat x) = float_truth L x"
| "truthy L (JString (Str s)) = (s \<noteq> [])"
| "truthy L (JString (Wide cps)) = (cps \<noteq> [])"
| "truthy L (JArr xs) = (xs \<noteq> [])"
| "truthy L (JObj kvs) = (kvs \<noteq> [])"

definition truthy_opt :: "'f pylib \<Rightarrow> 'f json option \<Rightarrow> bool" where
  "truthy_opt L v = (case v of None \<Rightarrow> False | Some j \<Rightarrow> truthy L j)"

text \<open>\<^verbatim>\<open>d.get(k)\<close>: only a dict has the method.\<close>

fun py_get :: "'f json \<Rightarrow> pystr \<Rightarrow> exn + 'f json option" where
  "py_get (JObj kvs) k = Inr (map_of kvs k)"
| "py_get j k = Inl AttributeError"

text \<open>\<^verbatim>\<open>d.update({k1: v1, ...})\<close>: a key already present keeps its place, a new one
  is appended.\<close>

fun py_update :: "'f json \<Rightarrow> (pystr \<times> 'f json) list \<Rightarrow> exn + 'f json" where
  "py_update (JObj kvs) new = Inr (JObj (foldl (\<lambda>acc (k, v). AList.update k v acc) kvs new))"
| "py_update j new = Inl AttributeError"

text \<open>\<^verbatim>\<open>d[k] = v\<close> with a string key: every other value json.load can return
  rejects it with a TypeError.\<close>

fun py_setitem :: "'f json \<Rightarrow> pystr \<Rightarrow> 'f json \<Rightarrow> exn + 'f json" where
  "py_setitem (JObj kvs) k v = Inr (JObj (AList.update k v kvs))"
| "py_setitem j k v = Inl TypeError"

section \<open>The credential store\<close>

text \<open>
  The file \<^verbatim>\<open>app_db.json\<close> as the store sees it: it is missing
  (\<^verbatim>\<open>FileNotFoundError\<close>), it cannot be read (any other error of \<^verbatim>\<open>_app_dir\<close> or
  \<^verbatim>\<open>open\<close>), \<^verbatim>\<open>json.load\<close> rejects its content, or \<^verbatim>\<open>json.load\<close> returns a value.
  \<open>writable\<close> says whether \<^verbatim>\<open>_app_dir\<close> and \<^verbatim>\<open>open(..., "w")\<close> succeed.
\<close>

datatype 'f disk = Missing | Unreadable | Garbage | Json "'f json"

record 'f env =
  writable :: bool
  db_file :: "'f disk"

text \<open>\<^verbatim>\<open>_load_db\<close>: both handlers return the empty dict; a parsed value is
  returned as it is, whatever its type.\<close>

definition load_db :: "'f env \<Rightarrow> 'f json" where
  "load_db e = (case db_file e of
      Missing \<Rightarrow> JObj []
    | Unreadable \<Rightarrow> JObj []
    | Garbage \<Rightarrow> JObj []
    | Json j \<Rightarrow> j)"

text \<open>What \<^verbatim>\<open>json.dump(d, f, ensure_ascii=False)\<close> can write to a file opened with
  \<^verbatim>\<open>encoding="utf-8"\<close>: every value \<^verbatim>\<open>json.load\<close> returns, unless a string or a key in
  it holds a surrogate code point, which UTF-8 does not encode.\<close>

definition str_encodable :: "pystr \<Rightarrow> bool" where
  "str_encodable s =
    (case s of
       Str t \<Rightarrow> True
     | Wide cps \<Rightarrow> list_all (\<lambda>c. \<not> (55296 \<le> c \<and> c \<le> 57343)) cps)"

primrec encodable :: "'f json \<Rightarrow> bool" where
  "encodable JNull = True"
| "encodable (JBool b) = True"
| "encodable (JInt i) = True"
| "encodable (JFloat x) = True"
| "encodable (JString s) = str_encodable s"
| "encodable (JArr xs) = list_all id (map encodable xs)"
| "encodable (JObj kvs) = list_all (\<lambda>(k, b). str_encodable k \<and> b) (map (map_prod id encodable) kvs)"

text \<open>\<^verbatim>\<open>_save_db\<close>. A raise is \<open>Inl (x, e')\<close>: the exception and the disk it leaves.
  When \<^verbatim>\<open>_app_dir\<close> or \<^verbatim>\<open>open(..., "w")\<close> fails the file is as before. Otherwise
  \<^verbatim>\<open>open\<close> has truncated the file; \<^verbatim>\<open>json.dump\<close> then writes the whole text, which
  \<^verbatim>\<open>json.load\<close> reads back as the same value, or it raises UnicodeEncodeError at the
  first string it cannot encode and leaves an unfinished text, which \<^verbatim>\<open>json.load\<close>
  rejects.\<close>

definition save_db :: "'f json \<Rightarrow> 'f env \<Rightarrow> (exn \<times> 'f env) + 'f env" where
  "save_db d e =
    (if \<not> writable e then Inl (OSError, e)
     else if encodable d then Inr (e\<lparr>db_file := Json d\<rparr>)
     else Inl (UnicodeEncodeError, e\<lparr>db_file := Garbage\<rparr>))"

definition get_credentials ::
  "'f env \<Rightarrow> exn + ('f json option \<times> 'f json option \<times> 'f json option)" where
  "get_credentials e =
    (let d = load_db e in
     case py_get d (Str ''api_key'') of Inl x \<Rightarrow> Inl x | Inr a \<Rightarrow>
     case py_get d (Str ''pin_hash'') of Inl x \<Rightarrow> Inl x | Inr h \<Rightarrow>
     case py_get d (Str ''pin_salt'') of Inl x \<Rightarrow> Inl x | Inr s \<Rightarrow>
     Inr (a, h, s))"

definition set_api_key :: "string \<Rightarrow> 'f env \<Rightarrow> (exn \<times> 'f env) + 'f env" where
  "set_api_key api_key e =
    (case py_setitem (load_db e) (Str ''api_key'') (JStr api_key) of
       Inl x \<Rightarrow> Inl (x, e)
     | Inr d \<Rightarrow> save_db d e)"

definition clear_credentials :: "'f env \<Rightarrow> (exn \<times> 'f env) + 'f env" where
  "clear_credentials e = save_db (JObj []) e"

section \<open>Strings and bytes\<close>

text \<open>\<^verbatim>\<open>str.isspace\<close>, \<^verbatim>\<open>str.strip()\<close> and \<^verbatim>\<open>str.isdigit()\<close> on code points below 256:
  the white space is U+0009..U+000D, U+001C..U+0020, U+0085 and U+00A0; the digits are
  0..9 and the superscripts U+00B2, U+00B3 and U+00B9.\<close>

definition py_isspace :: "char \<Rightarrow> bool" where
  "py_isspace c = (let n = (of_char c :: nat) in
     (9 \<le> n \<and> n \<le> 13) \<or> (28 \<le> n \<and> n \<le> 32) \<or> n = 133 \<or> n = 160)"

definition py_strip :: "string \<Rightarrow> string" where
  "py_strip s = rev (dropWhile py_isspace (rev (dropWhile py_isspace s)))"

definition py_isdigit_char :: "char \<Rightarrow> bool" where
  "py_isdigit_char c = (let n = (of_char c :: nat) in
     (48 \<le> n \<and> n \<le> 57) \<or> n = 178 \<or> n = 179 \<or> n = 185)"

definition py_isdigit :: "string \<Rightarrow> bool" where
  "py_isdigit s = (s \<noteq> [] \<and> list_all py_isdigit_char s)"

text \<open>\<^verbatim>\<open>s.encode("utf-8")\<close> on code points below 256.\<close>

definition utf8_char :: "char \<Rightarrow> byte list" where
  "utf8_char c = (let n = (of_char c :: nat) in
     if n < 128 then [of_nat n] else [of_nat (192 + n div 64), of_nat (128 + n mod 64)])"

definition utf8_encode :: "string \<Rightarrow> byte list" where
  "utf8_encode s = concat (map utf8_char s)"




subsection \<open>Base64\<close>

text \<open>\<^verbatim>\<open>base64.b64encode\<close>: three bytes give four characters of the standard
  alphabet, a last group of one or two bytes is padded with \<^verbatim>\<open>=\<close>. The shifts and
  masks of the library are written as \<open>div\<close>, \<open>mod\<close> and \<open>+\<close> on naturals below 256.\<close>

definition b64_char :: "nat \<Rightarrow> char" where
  "b64_char n = (if n < 26 then char_of (65 + n)
                 else if n < 52 then char_of (71 + n)
                 else if n < 62 then char_of (n - 4)
                 else if n = 62 then CHR ''+'' else CHR ''/'')"

fun b64encode :: "byte list \<Rightarrow> string" where
  "b64encode [] = []"
| "b64encode [a] =
     [b64_char (unat a div 4), b64_char (unat a mod 4 * 16), CHR ''='', CHR ''='']"
| "b64encode [a, b] =
     [b64_char (unat a div 4), b64_char (unat a mod 4 * 16 + unat b div 16),
      b64_char (unat b mod 16 * 4), CHR ''='']"
| "b64encode (a # b # c # rest) =
     [b64_char (unat a div 4), b64_char (unat a mod 4 * 16 + unat b div 16),
      b64_char (unat b mod 16 * 4 + unat c div 64), b64_char (unat c mod 64)]
     @ b64encode rest"

text \<open>\<^verbatim>\<open>base64.b64decode(s)\<close> with \<^verbatim>\<open>validate=False\<close>: a \<^verbatim>\<open>str\<close> must be ASCII
  (ValueError otherwise); then \<^verbatim>\<open>binascii.a2b_base64\<close> skips every character outside
  the alphabet, stops at a complete pad sequence, and raises \<^verbatim>\<open>binascii.Error\<close> when
  the data characters do not fill the last group. The loop state is the position in
  the group of four, the bits left over, and the pads seen.\<close>

definition b64_index :: "char \<Rightarrow> nat option" where
  "b64_index c = (let n = (of_char c :: nat) in
     if 65 \<le> n \<and> n \<le> 90 then Some (n - 65)
     else if 97 \<le> n \<and> n \<le> 122 then Some (n - 71)
     else if 48 \<le> n \<and> n \<le> 57 then Some (n + 4)
     else if n = 43 then Some 62
     else if n = 47 then Some 63
     else None)"

fun a2b_base64 :: "nat \<Rightarrow> nat \<Rightarrow> nat \<Rightarrow> byte list \<Rightarrow> string \<Rightarrow> exn + byte list" where
  "a2b_base64 q l p out [] = (if q \<noteq> 0 then Inl BinasciiError else Inr out)"
| "a2b_base64 q l p out (c # cs) =
     (if c = CHR ''='' then
        (if 2 \<le> q \<and> 4 \<le> q + (p + 1) then Inr out
         else a2b_base64 q l (if 2 \<le> q then p + 1 else p) out cs)
      else case b64_index c of
        None \<Rightarrow> a2b_base64 q l p out cs
      | Some v \<Rightarrow>
          (if q = 0 then a2b_base64 1 v 0 out cs
           else if q = 1 then a2b_base64 2 (v mod 16) 0 (out @ [of_nat (l * 4 + v div 16)]) cs
           else if q = 2 then a2b_base64 3 (v mod 4) 0 (out @ [of_nat (l * 16 + v div 4)]) cs
           else a2b_base64 0 0 0 (out @ [of_nat (l * 64 + v)]) cs))"

definition b64decode :: "string \<Rightarrow> exn + byte list" where
  "b64decode s = (if list_ex (\<lambda>c. 128 \<le> (of_char c :: nat)) s then Inl ValueError
                  else a2b_base64 0 0 0 [] s)"

section \<open>The PIN hasher\<close>

text \<open>The 32 bytes of the derived key, most significant first.\<close>

definition digest_bytes :: "256 word \<Rightarrow> byte list" where
  "digest_bytes w = map (\<lambda>i. ucast (drop_bit (8 * (31 - i)) w)) [0..<32]"

text \<open>\<^verbatim>\<open>_hash_pin(pin, salt_b64)\<close>.\<close>

definition hash_pin :: "'f pylib \<Rightarrow> string \<Rightarrow> string \<Rightarrow> exn + string" where
  "hash_pin L pin salt_b64 =
    (case b64decode salt_b64 of
       Inl x \<Rightarrow> Inl x
     | Inr salt \<Rightarrow>
         Inr (b64encode (digest_bytes (pbkdf2_hmac_sha256 L (utf8_encode pin) salt 100000))))"

text \<open>\<^verbatim>\<open>verify_pin(pin)\<close>. The guard \<^verbatim>\<open>not (pin_hash and pin_salt)\<close> comes first; a
  stored salt that is truthy and not a string makes \<^verbatim>\<open>b64decode\<close> raise TypeError,
  one that is a string with a code point above 255 ValueError (it is not ASCII);
  the comparison \<^verbatim>\<open>==\<close> with a stored value that is not a string is False.\<close>

definition verify_pin :: "'f pylib \<Rightarrow> string \<Rightarrow> 'f env \<Rightarrow> exn + bool" where
  "verify_pin L pin e =
    (case get_credentials e of
       Inl x \<Rightarrow> Inl x
     | Inr (a, pin_hash, pin_salt) \<Rightarrow>
         if \<not> (truthy_opt L pin_hash \<and> truthy_opt L pin_salt) then Inr False
         else (case pin_salt of
                 Some (JStr salt_b64) \<Rightarrow>
                   (case hash_pin L pin salt_b64 of
                      Inl x \<Rightarrow> Inl x
                    | Inr h \<Rightarrow> Inr (pin_hash = Some (JStr h)))
               | Some (JString (Wide cps)) \<Rightarrow> Inl ValueError
               | _ \<Rightarrow> Inl TypeError))"

text \<open>\<^verbatim>\<open>save_credentials(api_key, pin)\<close>; \<open>salt\<close> is what
  \<^verbatim>\<open>secrets.token_bytes(16)\<close> returned.\<close>

definition save_credentials ::
  "'f pylib \<Rightarrow> byte list \<Rightarrow> string \<Rightarrow> string \<Rightarrow> 'f env \<Rightarrow> (exn \<times> 'f env) + 'f env" where
  "save_credentials L salt api_key pin e =
    (let salt_b64 = b64encode salt in
     case hash_pin L pin salt_b64 of
       Inl x \<Rightarrow> Inl (x, e)
     | Inr pin_hash \<Rightarrow>
         (case py_update (load_db e)
                 [(Str ''api_key'', JStr api_key), (Str ''pin_hash'', JStr pin_hash),
                  (Str ''pin_salt'', JStr salt_b64)] of
            Inl x \<Rightarrow> Inl (x, e)
          | Inr d \<Rightarrow> save_db d e))"

section \<open>The key validator\<close>

text \<open>
  What \<^verbatim>\<open>requests.get\<close> returns: the status code, \<^verbatim>\<open>r.text\<close>, the message
  \<^verbatim>\<open>raise_for_status\<close> would put into its exception, and what \<^verbatim>\<open>r.json()\<close> does:
  it returns a value, or it raises (on a body that is not JSON, the
  \<^verbatim>\<open>JSONDecodeError\<close> of \<^verbatim>\<open>requests\<close>, which is a \<open>RequestException\<close>). The
  network is a function from the bearer key to an exception or a response.
\<close>

record 'f response =
  status_code :: int
  body_text :: string
  error_line :: string
  json_body :: "exn + 'f json"

text \<open>The texts that end up in the red message line, one constructor for each
  literal of the source; \<open>NoMsg\<close> is the empty string, the only falsy one.\<close>

datatype 'f message =
    NoMsg
  | InvalidKeyMsg
  | RateLimitedMsg
  | HttpErrorMsg string
  | NetworkErrorMsg string
  | UnexpectedErrorMsg exn
  | EnterKeyMsg
  | InsufficientMsg
  | BalanceSavedMsg 'f
  | EnterPinMsg
  | WrongPinMsg

text \<open>\<^verbatim>\<open>Response.raise_for_status\<close>: an HTTPError for a status from 400 to 599,
  nothing otherwise.\<close>

definition raise_for_status :: "'f response \<Rightarrow> exn + unit" where
  "raise_for_status r =
    (if 400 \<le> status_code r \<and> status_code r < 600
     then Inl (HTTPError (Some (body_text r)) (error_line r))
     else Inr ())"

text \<open>\<^verbatim>\<open>d.get(k, default)\<close> and \<^verbatim>\<open>float(x)\<close>.\<close>

definition py_get_default :: "'f json \<Rightarrow> pystr \<Rightarrow> 'f json \<Rightarrow> exn + 'f json" where
  "py_get_default d k dflt =
    (case py_get d k of
       Inl x \<Rightarrow> Inl x
     | Inr None \<Rightarrow> Inr dflt
     | Inr (Some v) \<Rightarrow> Inr v)"

fun py_float :: "'f pylib \<Rightarrow> 'f json \<Rightarrow> exn + 'f" where
  "py_float L (JFloat x) = Inr x"
| "py_float L (JInt i) = (case float_of_int L i of None \<Rightarrow> Inl OverflowError | Some x \<Rightarrow> Inr x)"
| "py_float L (JBool b) =
     (case float_of_int L (if b then 1 else 0) of None \<Rightarrow> Inl OverflowError | Some x \<Rightarrow> Inr x)"
| "py_float L (JString s) = (case float_of_str L s of None \<Rightarrow> Inl ValueError | Some x \<Rightarrow> Inr x)"
| "py_float L j = Inl TypeError"

text \<open>The three \<^verbatim>\<open>except\<close> clauses of \<^verbatim>\<open>check_api_key_balance\<close>, in their order.\<close>

fun on_exception :: "'f pylib \<Rightarrow> exn \<Rightarrow> bool \<times> 'f \<times> 'f message" where
  "on_exception L (HTTPError (Some t) s) = (False, float_zero L, HttpErrorMsg t)"
| "on_exception L (HTTPError None s) = (False, float_zero L, HttpErrorMsg s)"
| "on_exception L (RequestException s) = (False, float_zero L, NetworkErrorMsg s)"
| "on_exception L x = (False, float_zero L, UnexpectedErrorMsg x)"

text \<open>The body of the \<^verbatim>\<open>try\<close> after the two status tests.\<close>

definition read_balance :: "'f pylib \<Rightarrow> 'f response \<Rightarrow> exn + (bool \<times> 'f \<times> 'f message)" where
  "read_balance L r =
    (case raise_for_status r of Inl x \<Rightarrow> Inl x | Inr u \<Rightarrow>
     case json_body r of Inl x \<Rightarrow> Inl x | Inr j \<Rightarrow>
     case py_get_default j (Str ''data'') (JObj []) of Inl x \<Rightarrow> Inl x | Inr data \<Rightarrow>
     case py_get_default data (Str ''total_credits'') (JFloat (float_zero L)) of Inl x \<Rightarrow> Inl x | Inr tc \<Rightarrow>
     case py_float L tc of Inl x \<Rightarrow> Inl x | Inr credits \<Rightarrow>
     case py_get_default data (Str ''total_usage'') (JFloat (float_zero L)) of Inl x \<Rightarrow> Inl x | Inr tu \<Rightarrow>
     case py_float L tu of Inl x \<Rightarrow> Inl x | Inr used \<Rightarrow>
     (let balance = float_sub L credits used
      in Inr (float_gt L balance (float_zero L), balance, NoMsg)))"

definition check_api_key_balance ::
  "'f pylib \<Rightarrow> (string \<Rightarrow> exn + 'f response) \<Rightarrow> string \<Rightarrow> bool \<times> 'f \<times> 'f message" where
  "check_api_key_balance L net api_key =
    (case net api_key of
       Inl x \<Rightarrow> on_exception L x
     | Inr r \<Rightarrow>
         if status_code r = 401 \<or> status_code r = 403 then (False, float_zero L, InvalidKeyMsg)
         else if status_code r = 429 then (False, float_zero L, RateLimitedMsg)
         else (case read_balance L r of Inl x \<Rightarrow> on_exception L x | Inr res \<Rightarrow> res))"

section \<open>The login card\<close>

text \<open>
  The state that \<^verbatim>\<open>make_login_card\<close> closes over (\<^verbatim>\<open>LoginCard\<close> in
  \<^verbatim>\<open>ui/components.py\<close> holds the same as attributes): the mode, the two text
  fields, the message line, the progress ring, the PIN of the dialog that is open,
  the arguments \<^verbatim>\<open>on_success\<close> has been called with, and the store on disk.
\<close>

datatype mode = First | Pin

record 'f gate =
  mode :: mode
  api_key_tf :: "string option"
  pin_tf :: "string option"
  msg :: "'f message"
  progress :: bool
  dialog :: "string option"
  handed_over :: "'f json option list"
  store :: "'f env"

text \<open>A handler returns, or an exception leaves it with the state reached so far
  (the disk as the failed store operation left it).\<close>

datatype 'f outcome = Done "'f gate" | Raised exn "'f gate"

text \<open>\<^verbatim>\<open>(tf.value or "").strip()\<close>.\<close>

definition field_text :: "string option \<Rightarrow> string" where
  "field_text v = py_strip (case v of None \<Rightarrow> [] | Some s \<Rightarrow> s)"

definition initial_mode :: "'f pylib \<Rightarrow> 'f env \<Rightarrow> exn + mode" where
  "initial_mode L e =
    (case get_credentials e of
       Inl x \<Rightarrow> Inl x
     | Inr (a, h, s) \<Rightarrow> Inr (if truthy_opt L a then Pin else First))"

definition switch_mode :: "mode \<Rightarrow> 'f gate \<Rightarrow> 'f gate" where
  "switch_mode new_mode g = g\<lparr>mode := new_mode, msg := NoMsg\<rparr>"

definition on_reset_click :: "'f gate \<Rightarrow> 'f outcome" where
  "on_reset_click g =
    (case clear_credentials (store g) of
       Inl (x, e) \<Rightarrow> Raised x (g\<lparr>store := e\<rparr>)
     | Inr e \<Rightarrow> Done (switch_mode First (g\<lparr>store := e, api_key_tf := Some [], pin_tf := Some []\<rparr>)))"



definition on_login_click :: "'f pylib \<Rightarrow> 'f gate \<Rightarrow> 'f outcome" where
  "on_login_click L g =
    (let pin = field_text (pin_tf g) in
     if length pin \<noteq> 4 \<or> \<not> py_isdigit pin then Done (g\<lparr>msg := EnterPinMsg\<rparr>)
     else
       (case verify_pin L pin (store g) of
          Inl x \<Rightarrow> Raised x g
        | Inr False \<Rightarrow> Done (g\<lparr>msg := WrongPinMsg\<rparr>)
        | Inr True \<Rightarrow>
            (case get_credentials (store g) of
               Inl x \<Rightarrow> Raised x g
             | Inr (a, h, s) \<Rightarrow> Done (g\<lparr>handed_over := handed_over g @ [a]\<rparr>))))"

section \<open>A library to run the model on\<close>

text \<open>Every theorem below holds for any library record. To evaluate the model at a
  concrete input, floats are taken to be integers and the key derivation to be a
  polynomial checksum of password, salt and iteration count.\<close>

definition sample_lib :: "int pylib" where
  "sample_lib = \<lparr>
     pbkdf2_hmac_sha256 = (\<lambda>pw salt n. foldl (\<lambda>h b. h * 257 + ucast b) (of_nat n) (pw @ 0 # salt)),
     float_truth = (\<lambda>x. x \<noteq> 0),
     float_zero = 0,
     float_sub = (\<lambda>x y. x - y),
     float_gt = (\<lambda>x y. y < x),
     float_of_int = Some,
     float_of_str = (\<lambda>s. None)\<rparr>"

section \<open>Base64 decodes what it encoded\<close>

lemma b64_index_char: "n < 64 \<Longrightarrow> b64_index (b64_char n) = Some n"
  unfolding b64_index_def b64_char_def Let_def
  by auto

lemma b64_index_pad: "b64_index (CHR ''='') = None"
  by (simp add: b64_index_def)

lemma b64_char_not_pad: "n < 64 \<Longrightarrow> b64_char n \<noteq> CHR ''=''"
  using b64_index_char [of n] b64_index_pad by auto

lemma a2b_data:
  "n < 64 \<Longrightarrow> a2b_base64 q l p out (b64_char n # cs) =
     (if q = 0 then a2b_base64 1 n 0 out cs
      else if q = 1 then a2b_base64 2 (n mod 16) 0 (out @ [of_nat (l * 4 + n div 16)]) cs
      else if q = 2 then a2b_base64 3 (n mod 4) 0 (out @ [of_nat (l * 16 + n div 4)]) cs
      else a2b_base64 0 0 0 (out @ [of_nat (l * 64 + n)]) cs)"
  by (simp add: b64_index_char b64_char_not_pad)

lemma unat_byte_lt: "unat (a :: byte) < 256"
  using unsigned_less [of a] by simp

lemma nat1: "y < 256 \<Longrightarrow> x div 4 * 4 + (x mod 4 * 16 + y div 16) div 16 = (x::nat)"
  by simp

lemma nat2: "y < 256 \<Longrightarrow> z < 256 \<Longrightarrow> (x mod 4 * 16 + y div 16) mod 16 * 16 + (y mod 16 * 4 + z div 64) div 4 = (y::nat)"
  by simp

lemma nat3: "z < 256 \<Longrightarrow> (y mod 16 * 4 + z div 64) mod 4 * 64 + z mod 64 = (z::nat)"
  by simp

lemma byte1: "(of_nat (unat a div 4 * 4 + (unat a mod 4 * 16 + unat (b::byte) div 16) div 16) :: byte) = a"
  by (simp only: nat1 [OF unat_byte_lt]) simp

lemma byte1': "(of_nat (unat a div 4 * 4 + (unat a mod 4 * 16) div 16) :: byte) = a"
proof -
  have "unat a div 4 * 4 + (unat a mod 4 * 16) div 16 = unat a" by simp
  then show ?thesis by (simp only:) simp
qed

lemma byte2: "(of_nat ((unat a mod 4 * 16 + unat (b::byte) div 16) mod 16 * 16 + (unat b mod 16 * 4 + unat (c::byte) div 64) div 4) :: byte) = b"
  by (simp only: nat2 [OF unat_byte_lt unat_byte_lt]) simp

lemma byte2': "(of_nat ((unat a mod 4 * 16 + unat (b::byte) div 16) mod 16 * 16 + (unat b mod 16 * 4) div 4) :: byte) = b"
proof -
  have "unat b div 16 < 16" using unat_byte_lt [of b] by simp
  then have "(unat a mod 4 * 16 + unat b div 16) mod 16 * 16 + (unat b mod 16 * 4) div 4 = unat b"
    by simp
  then show ?thesis by (simp only:) simp
qed

lemma byte3: "(of_nat ((unat (b::byte) mod 16 * 4 + unat (c::byte) div 64) mod 4 * 64 + unat c mod 64) :: byte) = c"
  by (simp only: nat3 [OF unat_byte_lt]) simp

lemma a2b_pad:
  "a2b_base64 q l p out (CHR ''='' # cs) =
     (if 2 \<le> q \<and> 4 \<le> q + (p + 1) then Inr out
      else a2b_base64 q l (if 2 \<le> q then p + 1 else p) out cs)"
  by simp

lemma sextet_bounds:
  "unat (a::byte) div 4 < 64" "unat a mod 4 * 16 + unat (b::byte) div 16 < 64"
  "unat b mod 16 * 4 + unat (c::byte) div 64 < 64" "unat c mod 64 < 64"
  "unat a mod 4 * 16 < 64" "unat b mod 16 * 4 < 64"
  using unat_byte_lt [of a] unat_byte_lt [of b] unat_byte_lt [of c] by simp_all

lemma a2b_group:
  assumes "i1 < 64" "i2 < 64" "i3 < 64" "i4 < 64"
  shows "a2b_base64 0 l p out (b64_char i1 # b64_char i2 # b64_char i3 # b64_char i4 # cs)
    = a2b_base64 0 0 0 (out @ [of_nat (i1 * 4 + i2 div 16), of_nat (i2 mod 16 * 16 + i3 div 4),
         of_nat (i3 mod 4 * 64 + i4)]) cs"
  using assms by (simp only: a2b_data) simp

lemma a2b_tail2:
  assumes "i1 < 64" "i2 < 64" "i3 < 64"
  shows "a2b_base64 0 l p out [b64_char i1, b64_char i2, b64_char i3, CHR ''='']
    = Inr (out @ [of_nat (i1 * 4 + i2 div 16), of_nat (i2 mod 16 * 16 + i3 div 4)])"
  using assms by (simp only: a2b_data a2b_pad) simp

lemma a2b_tail1:
  assumes "i1 < 64" "i2 < 64"
  shows "a2b_base64 0 l p out [b64_char i1, b64_char i2, CHR ''='', CHR ''='']
    = Inr (out @ [of_nat (i1 * 4 + i2 div 16)])"
  using assms by (simp only: a2b_data a2b_pad) simp

lemma a2b_encode: "a2b_base64 0 l p out (b64encode bs) = Inr (out @ bs)"
proof (induction bs arbitrary: l p out rule: b64encode.induct)
  case 1
  show ?case by simp
next
  case (2 a)
  show ?case
    by (simp only: b64encode.simps a2b_tail1 [OF sextet_bounds(1) sextet_bounds(5)] byte1')
next
  case (3 a b)
  show ?case
    by (simp only: b64encode.simps a2b_tail2 [OF sextet_bounds(1) sextet_bounds(2) sextet_bounds(6)]
          byte1 byte2')
next
  case (4 a b c rest)
  show ?case
    by (simp only: b64encode.simps append_Cons append_Nil
          a2b_group [OF sextet_bounds(1) sextet_bounds(2) sextet_bounds(3) sextet_bounds(4)]
          byte1 byte2 byte3 "4.IH") simp
qed

lemma b64encode_ascii: "c \<in> set (b64encode bs) \<Longrightarrow> (of_char c :: nat) < 128"
  by (induction bs rule: b64encode.induct) (auto simp: b64_char_def)

lemma b64decode_b64encode: "b64decode (b64encode bs) = Inr bs"
proof -
  have "\<not> list_ex (\<lambda>c. 128 \<le> (of_char c :: nat)) (b64encode bs)"
    using b64encode_ascii [of _ bs] by (force simp: list_ex_iff)
  then show ?thesis by (simp add: b64decode_def a2b_encode)
qed



lemma hash_pin_encoded:
  "hash_pin L pin (b64encode salt)
     = Inr (b64encode (digest_bytes (pbkdf2_hmac_sha256 L (utf8_encode pin) salt 100000)))"
  by (simp add: hash_pin_def b64decode_b64encode)



section \<open>Decimal PINs, saved records\<close>






lemma map_of_save:
  "map_of (foldl (\<lambda>acc (k, v). AList.update k v acc) d [(k1, v1), (k2, v2), (k3, v3)])
     = (map_of d)(k1 \<mapsto> v1, k2 \<mapsto> v2, k3 \<mapsto> v3)"
  by (simp add: update_conv')

lemma encodable_obj:
  "encodable (JObj kvs) = (\<forall>(k, v) \<in> set kvs. str_encodable k \<and> encodable v)"
  by (induction kvs) auto

lemma encodable_update:
  assumes "encodable (JObj d)" and "str_encodable k" and "encodable v"
  shows "encodable (JObj (AList.update k v d))"
  using assms unfolding encodable_obj by (induction d) auto

lemma encodable_save:
  assumes "encodable (JObj d)"
  shows "encodable (JObj (foldl (\<lambda>acc (k, v). AList.update k v acc) d
           [(Str k1, JStr v1), (Str k2, JStr v2), (Str k3, JStr v3)]))"
proof -
  have "encodable (JObj (AList.update (Str k3) (JStr v3)
          (AList.update (Str k2) (JStr v2) (AList.update (Str k1) (JStr v1) d))))"
    by (intro encodable_update assms) (simp_all add: str_encodable_def)
  then show ?thesis by (simp only: foldl.simps prod.case)
qed

lemma save_credentials_result:
  assumes "load_db e = JObj d" and "writable e" and "encodable (JObj d)"
  shows "save_credentials L salt api_key pin e =
    Inr (e\<lparr>db_file := Json (JObj (foldl (\<lambda>acc (k, v). AList.update k v acc) d
       [(Str ''api_key'', JStr api_key),
        (Str ''pin_hash'', JStr (b64encode (digest_bytes (pbkdf2_hmac_sha256 L (utf8_encode pin) salt 100000)))),
        (Str ''pin_salt'', JStr (b64encode salt))]))\<rparr>)"
  using assms(1,2) encodable_save [OF assms(3)]
  by (simp add: save_credentials_def hash_pin_encoded save_db_def del: foldl.simps)


lemma set_api_key_result:
  assumes "load_db e = JObj d" and "writable e" and "encodable (JObj d)"
  shows "set_api_key k e = Inr (e\<lparr>db_file := Json (JObj (AList.update (Str ''api_key'') (JStr k) d))\<rparr>)"
  using assms(1,2) encodable_update [OF assms(3), of "Str ''api_key''" "JStr k"]
  by (simp add: set_api_key_def save_db_def str_encodable_def)

section \<open>Saving\<close>

text \<open>
  What \<^verbatim>\<open>save_credentials\<close> does on a store whose object can be written back: it
  returns, the object it writes agrees with the old one on every key other than
  \<^verbatim>\<open>api_key\<close>, \<^verbatim>\<open>pin_hash\<close> and \<^verbatim>\<open>pin_salt\<close>, and these three hold the new key,
  the new digest and the new salt of this one write.
\<close>

lemma save_credentials_keeps_other_keys:
  assumes "load_db e = JObj d" and "writable e" and "encodable (JObj d)"
  shows "\<exists>d'. save_credentials L salt api_key pin e = Inr (e\<lparr>db_file := Json (JObj d')\<rparr>)
     \<and> (\<forall>k. k \<notin> {Str ''api_key'', Str ''pin_hash'', Str ''pin_salt''} \<longrightarrow> map_of d' k = map_of d k)
     \<and> map_of d' (Str ''api_key'') = Some (JStr api_key)
     \<and> map_of d' (Str ''pin_salt'') = Some (JStr (b64encode salt))
     \<and> (\<exists>h. hash_pin L pin (b64encode salt) = Inr h \<and> map_of d' (Str ''pin_hash'') = Some (JStr h))"
  apply (rule exI)
  apply (rule conjI)
   apply (rule save_credentials_result [OF assms])
  apply (simp only: map_of_save hash_pin_encoded)
  apply simp
  done

text \<open>
  C6. The frame does not hold for every prior store content. A store file may hold
  a string with a lone surrogate: \<^verbatim>\<open>{"theme": "dark", "note": "\ud800"}\<close> is
  well-formed JSON and \<^verbatim>\<open>json.load\<close> returns it. \<^verbatim>\<open>save_credentials\<close> merges the
  three credential fields into it and calls \<^verbatim>\<open>_save_db\<close>, which truncates the file
  and then raises UnicodeEncodeError while writing the note. What is left on disk
  does not parse: the next load yields the empty object, so the unrelated key
  \<^verbatim>\<open>theme\<close> is lost and no credential field has been stored.
\<close>

theorem save_credentials_loses_unencodable_store:
  "py_get (load_db \<lparr>writable = True,
       db_file = Json (JObj [(Str ''theme'', JStr ''dark''), (Str ''note'', JString (Wide [55296]) :: int json)])\<rparr>)
     (Str ''theme'') = Inr (Some (JStr ''dark''))
 \<and> save_credentials sample_lib [1, 2, 3, 4, 5, 6, 7, 8, 9, 10, 11, 12, 13, 14, 15, 16]
       ''sk-or-v1'' ''0042''
       \<lparr>writable = True,
        db_file = Json (JObj [(Str ''theme'', JStr ''dark''), (Str ''note'', JString (Wide [55296]))])\<rparr>
     = Inl (UnicodeEncodeError, \<lparr>writable = True, db_file = Garbage\<rparr>)
 \<and> py_get (load_db \<lparr>writable = True, db_file = (Garbage :: int disk)\<rparr>) (Str ''theme'') = Inr None
 \<and> get_credentials \<lparr>writable = True, db_file = (Garbage :: int disk)\<rparr> = Inr (None, None, None)"
  by (simp add: save_credentials_def hash_pin_encoded save_db_def load_db_def get_credentials_def
        str_encodable_def Let_def del: b64encode.simps)

text \<open>
  C7 does not hold of \<^verbatim>\<open>set_api_key\<close>: it replaces \<^verbatim>\<open>api_key\<close> alone, and the
  \<^verbatim>\<open>pin_hash\<close> and \<^verbatim>\<open>pin_salt\<close> of the previous record stay in place.
\<close>

theorem set_api_key_keeps_old_pin:
  "set_api_key ''new-key''
     \<lparr>writable = True,
      db_file = Json (JObj [(Str ''api_key'', JStr ''old-key''), (Str ''pin_hash'', JStr ''aGFzaA==''),
                            (Str ''pin_salt'', JStr ''c2FsdA=='' :: int json)])\<rparr>
   = Inr \<lparr>writable = True,
      db_file = Json (JObj [(Str ''api_key'', JStr ''new-key''), (Str ''pin_hash'', JStr ''aGFzaA==''),
                            (Str ''pin_salt'', JStr ''c2FsdA=='')])\<rparr>"
  by (simp add: set_api_key_def save_db_def load_db_def str_encodable_def)

text \<open>
  C7, amended. On a store that holds an object and can be written (the directory
  and the file can be opened, and the stored object can be encoded again),
  \<^verbatim>\<open>save_credentials\<close> sets all three credential fields in one write and
  \<^verbatim>\<open>set_api_key\<close> sets \<^verbatim>\<open>api_key\<close> and leaves every other key, \<^verbatim>\<open>pin_hash\<close> and
  \<^verbatim>\<open>pin_salt\<close> among them, as it was; \<^verbatim>\<open>clear_credentials\<close> removes all three
  (the file becomes the empty object) whatever the stored object was.
\<close>

theorem write_operations:
  assumes "load_db e = JObj d" and "writable e"
  shows "(encodable (JObj d) \<longrightarrow>
          (\<exists>d'. save_credentials L salt k pin e = Inr (e\<lparr>db_file := Json (JObj d')\<rparr>)
          \<and> map_of d' (Str ''api_key'') = Some (JStr k)
          \<and> map_of d' (Str ''pin_salt'') = Some (JStr (b64encode salt))
          \<and> (\<exists>h. hash_pin L pin (b64encode salt) = Inr h \<and> map_of d' (Str ''pin_hash'') = Some (JStr h))))
     \<and> clear_credentials e = Inr (e\<lparr>db_file := Json (JObj [])\<rparr>)
     \<and> (encodable (JObj d) \<longrightarrow>
          (\<exists>d'. set_api_key k e = Inr (e\<lparr>db_file := Json (JObj d')\<rparr>)
          \<and> map_of d' = (map_of d)(Str ''api_key'' \<mapsto> JStr k)))"
proof (intro conjI impI)
  assume en: "encodable (JObj d)"
  show "\<exists>d'. save_credentials L salt k pin e = Inr (e\<lparr>db_file := Json (JObj d')\<rparr>)
          \<and> map_of d' (Str ''api_key'') = Some (JStr k)
          \<and> map_of d' (Str ''pin_salt'') = Some (JStr (b64encode salt))
          \<and> (\<exists>h. hash_pin L pin (b64encode salt) = Inr h \<and> map_of d' (Str ''pin_hash'') = Some (JStr h))"
    apply (rule exI)
    apply (rule conjI)
     apply (rule save_credentials_result [OF assms en])
    apply (simp only: map_of_save hash_pin_encoded)
    apply simp
    done
next
  show "clear_credentials e = Inr (e\<lparr>db_file := Json (JObj [])\<rparr>)"
    using assms by (simp add: clear_credentials_def save_db_def)
next
  assume en: "encodable (JObj d)"
  show "\<exists>d'. set_api_key k e = Inr (e\<lparr>db_file := Json (JObj d')\<rparr>)
          \<and> map_of d' = (map_of d)(Str ''api_key'' \<mapsto> JStr k)"
    using set_api_key_result [OF assms en] by (auto simp: update_conv')
qed

theorem write_operations_witness:
  "clear_credentials
     \<lparr>writable = True,
      db_file = Json (JObj [(Str ''api_key'', JStr ''old-key''), (Str ''pin_hash'', JStr ''aGFzaA=='' :: int json)])\<rparr>
     = Inr \<lparr>writable = True, db_file = Json (JObj [])\<rparr>
   \<and> (\<exists>d'. set_api_key ''new-key''
        \<lparr>writable = True,
         db_file = Json (JObj [(Str ''api_key'', JStr ''old-key''), (Str ''pin_hash'', JStr ''aGFzaA=='' :: int json)])\<rparr>
        = Inr \<lparr>writable = True, db_file = Json (JObj d')\<rparr>
      \<and> map_of d' (Str ''pin_hash'') = Some (JStr ''aGFzaA==''))
   \<and> (\<exists>d'. save_credentials sample_lib [1] ''new-key'' ''0042''
        \<lparr>writable = True,
         db_file = Json (JObj [(Str ''api_key'', JStr ''old-key''), (Str ''pin_hash'', JStr ''aGFzaA=='' :: int json)])\<rparr>
        = Inr \<lparr>writable = True, db_file = Json (JObj d')\<rparr>
      \<and> map_of d' (Str ''api_key'') = Some (JStr ''new-key'')
      \<and> map_of d' (Str ''pin_salt'') = Some (JStr (b64encode [1])))"
proof -
  let ?d = "[(Str ''api_key'', JStr ''old-key''), (Str ''pin_hash'', JStr ''aGFzaA=='' :: int json)]"
  let ?e = "\<lparr>writable = True, db_file = Json (JObj ?d)\<rparr>"
  have l: "load_db ?e = JObj ?d"
    by (simp add: load_db_def)
  have w: "writable ?e" by simp
  have en: "encodable (JObj ?d)" by (simp add: str_encodable_def)
  note t = write_operations [OF l w, of sample_lib "[1]" "''new-key''" "''0042''"]
  from t have c: "clear_credentials ?e = Inr (?e\<lparr>db_file := Json (JObj [])\<rparr>)" by blast
  from t en obtain d' where s: "set_api_key ''new-key'' ?e = Inr (?e\<lparr>db_file := Json (JObj d')\<rparr>)"
    and m: "map_of d' = (map_of ?d)(Str ''api_key'' \<mapsto> JStr ''new-key'')"
    by blast
  from t en obtain d'' where
    s2: "save_credentials sample_lib [1] ''new-key'' ''0042'' ?e = Inr (?e\<lparr>db_file := Json (JObj d'')\<rparr>)"
    and m2: "map_of d'' (Str ''api_key'') = Some (JStr ''new-key'')"
    and m3: "map_of d'' (Str ''pin_salt'') = Some (JStr (b64encode [1]))"
    by blast
  from m have "map_of d' (Str ''pin_hash'') = Some (JStr ''aGFzaA=='')" by simp
  with c s s2 m2 m3 show ?thesis by auto
qed

section \<open>Verifying\<close>

text \<open>
  What \<^verbatim>\<open>verify_pin\<close> computes on a stored digest and salt: with both non-empty it
  recomputes the digest of the submitted PIN and compares, so it accepts exactly the
  PINs whose digest equals the stored one; an empty stored salt, although it is the
  base64 text of zero bytes, is taken as no salt at all. Whether two distinct PINs
  can have the same digest is a property of \<^verbatim>\<open>pbkdf2_hmac\<close>, which is a parameter
  here.
\<close>

lemma verify_pin_recomputes:
  assumes "load_db e = JObj d"
    and "map_of d (Str ''pin_hash'') = Some (JStr h)" and "map_of d (Str ''pin_salt'') = Some (JStr s)"
    and "h \<noteq> []" and "s \<noteq> []" and "hash_pin L pin s = Inr h'"
  shows "verify_pin L pin e = Inr (h' = h)"
  using assms by (auto simp: verify_pin_def get_credentials_def truthy_opt_def)

lemma verify_pin_empty_salt:
  assumes "load_db e = JObj d" and "map_of d (Str ''pin_salt'') = Some (JStr [])"
  shows "verify_pin L pin e = Inr False"
  using assms by (simp add: verify_pin_def get_credentials_def truthy_opt_def)

lemma b64decode_empty: "b64decode [] = Inr []"
  by (simp add: b64decode_def)

text \<open>
  C9. When the store yields a record whose \<^verbatim>\<open>pin_hash\<close> or \<^verbatim>\<open>pin_salt\<close> is absent,
  a record with \<^verbatim>\<open>api_key\<close> alone included, \<^verbatim>\<open>verify_pin\<close> returns False for every
  PIN string.
\<close>

theorem verify_pin_without_hash_or_salt:
  "get_credentials e = Inr (a, h, s) \<Longrightarrow> h = None \<or> s = None \<Longrightarrow> verify_pin L pin e = Inr False"
  by (auto simp: verify_pin_def truthy_opt_def)

theorem verify_pin_without_hash_or_salt_witness:
  "get_credentials \<lparr>writable = True, db_file = Json (JObj [(Str ''api_key'', JStr ''sk-or-v1'' :: int json)])\<rparr>
     = Inr (Some (JStr ''sk-or-v1''), None, None)
   \<and> verify_pin sample_lib ''1234''
       \<lparr>writable = True, db_file = Json (JObj [(Str ''api_key'', JStr ''sk-or-v1'')])\<rparr> = Inr False"
proof -
  have g: "get_credentials \<lparr>writable = True, db_file = Json (JObj [(Str ''api_key'', JStr ''sk-or-v1'' :: int json)])\<rparr>
     = Inr (Some (JStr ''sk-or-v1''), None, None)"
    by (simp add: get_credentials_def load_db_def)
  have n: "(None :: int json option) = None \<or> (None :: int json option) = None" by simp
  show ?thesis using g verify_pin_without_hash_or_salt [OF g n, of sample_lib "''1234''"] by simp
qed

section \<open>Loading\<close>

lemma get_credentials_no_object:
  "db_file e \<in> {Missing, Unreadable, Garbage} \<Longrightarrow> get_credentials e = Inr (None, None, None)"
  by (auto simp: get_credentials_def load_db_def)

lemma get_credentials_object:
  "db_file e = Json (JObj kvs) \<Longrightarrow>
   get_credentials e = Inr (map_of kvs (Str ''api_key''), map_of kvs (Str ''pin_hash''), map_of kvs (Str ''pin_salt''))"
  by (simp add: get_credentials_def load_db_def)

text \<open>
  C5. A store file that holds well-formed JSON which is not an object, here the empty
  array, is returned by \<^verbatim>\<open>_load_db\<close> as a list, and \<^verbatim>\<open>get_credentials\<close> raises
  AttributeError on it instead of returning a triple.
\<close>

theorem get_credentials_array_raises:
  "load_db \<lparr>writable = True, db_file = Json (JArr [] :: int json)\<rparr> = JArr []
   \<and> get_credentials \<lparr>writable = True, db_file = Json (JArr [] :: int json)\<rparr> = Inl AttributeError"
  by (simp add: get_credentials_def load_db_def)

section \<open>Clearing\<close>

text \<open>
  C8. When \<^verbatim>\<open>clear_credentials\<close> returns, \<^verbatim>\<open>get_credentials\<close> yields three absent
  fields, and a second clear returns the very same store.
\<close>

theorem clear_then_load_empty:
  "clear_credentials e = Inr e' \<Longrightarrow>
   get_credentials e' = Inr (None, None, None) \<and> clear_credentials e' = Inr e'"
  by (auto simp: clear_credentials_def save_db_def get_credentials_def load_db_def
           split: if_splits)

theorem clear_then_load_empty_witness:
  "clear_credentials \<lparr>writable = True, db_file = Json (JObj [(Str ''api_key'', JStr ''sk''), (Str ''theme'', JStr ''dark'' :: unit json)])\<rparr>
     = Inr \<lparr>writable = True, db_file = Json (JObj [])\<rparr>
   \<and> get_credentials \<lparr>writable = True, db_file = (Json (JObj []) :: unit disk)\<rparr> = Inr (None, None, None)
   \<and> clear_credentials \<lparr>writable = True, db_file = (Json (JObj []) :: unit disk)\<rparr>
     = Inr \<lparr>writable = True, db_file = Json (JObj [])\<rparr>"
proof -
  have c: "clear_credentials \<lparr>writable = True, db_file = Json (JObj [(Str ''api_key'', JStr ''sk''), (Str ''theme'', JStr ''dark'' :: unit json)])\<rparr>
     = Inr \<lparr>writable = True, db_file = Json (JObj [])\<rparr>"
    by (simp add: clear_credentials_def save_db_def)
  show ?thesis using clear_then_load_empty [OF c] c by simp
qed

text \<open>
  C10. \<^verbatim>\<open>clear_credentials\<close> writes the empty object over the whole file: whatever
  object was stored before, no key of it is left.
\<close>

theorem clear_drops_unrelated_keys:
  "db_file e = Json (JObj d) \<Longrightarrow> map_of d k \<noteq> None \<Longrightarrow>
   k \<notin> {Str ''api_key'', Str ''pin_hash'', Str ''pin_salt''} \<Longrightarrow> clear_credentials e = Inr e' \<Longrightarrow>
   db_file e' = Json (JObj []) \<and> py_get (load_db e') k = Inr None"
  by (auto simp: clear_credentials_def save_db_def load_db_def split: if_splits)

theorem clear_drops_unrelated_keys_witness:
  "py_get (load_db \<lparr>writable = True, db_file = Json (JObj [(Str ''api_key'', JStr ''sk''), (Str ''theme'', JStr ''dark'')])\<rparr>) (Str ''theme'')
     = Inr (Some (JStr ''dark'' :: unit json))
   \<and> db_file \<lparr>writable = True, db_file = (Json (JObj []) :: unit disk)\<rparr> = Json (JObj [])
   \<and> py_get (load_db \<lparr>writable = True, db_file = (Json (JObj []) :: unit disk)\<rparr>) (Str ''theme'') = Inr None"
proof -
  let ?e = "\<lparr>writable = True, db_file = Json (JObj [(Str ''api_key'', JStr ''sk''), (Str ''theme'', JStr ''dark'' :: unit json)])\<rparr>"
  have c: "clear_credentials ?e = Inr \<lparr>writable = True, db_file = Json (JObj [])\<rparr>"
    by (simp add: clear_credentials_def save_db_def)
  have f: "db_file ?e = Json (JObj [(Str ''api_key'', JStr ''sk''), (Str ''theme'', JStr ''dark'')])"
    by simp
  have m: "map_of [(Str ''api_key'', JStr ''sk''), (Str ''theme'', JStr ''dark'' :: unit json)] (Str ''theme'') \<noteq> None"
    by simp
  have k: "Str ''theme'' \<notin> {Str ''api_key'', Str ''pin_hash'', Str ''pin_salt''}"
    by simp
  show ?thesis using clear_drops_unrelated_keys [OF f m k c] by (simp add: load_db_def)
qed

section \<open>Validating a key\<close>

lemma on_exception_other:
  "(\<forall>t s. x \<noteq> HTTPError t s) \<Longrightarrow> (\<forall>s. x \<noteq> RequestException s) \<Longrightarrow>
   on_exception L x = (False, float_zero L, UnexpectedErrorMsg x)"
  by (cases x) auto

lemma read_balance_http_error:
  "400 \<le> status_code r \<Longrightarrow> status_code r < 600 \<Longrightarrow>
   read_balance L r = Inl (HTTPError (Some (body_text r)) (error_line r))"
  by (simp add: read_balance_def raise_for_status_def)

lemma read_balance_parsed:
  assumes "\<not> (400 \<le> status_code r \<and> status_code r < 600)"
    and "json_body r = Inr j"
    and "py_get_default j (Str ''data'') (JObj []) = Inr data"
    and "py_get_default data (Str ''total_credits'') (JFloat (float_zero L)) = Inr tc"
    and "py_float L tc = Inr credits"
    and "py_get_default data (Str ''total_usage'') (JFloat (float_zero L)) = Inr tu"
    and "py_float L tu = Inr used"
  shows "read_balance L r =
     Inr (float_gt L (float_sub L credits used) (float_zero L), float_sub L credits used, NoMsg)"
  using assms by (simp add: read_balance_def raise_for_status_def Let_def)

lemma read_balance_json_raises:
  "\<not> (400 \<le> status_code r \<and> status_code r < 600) \<Longrightarrow> json_body r = Inl x \<Longrightarrow>
   read_balance L r = Inl x"
  by (auto simp: read_balance_def raise_for_status_def)

text \<open>
  C3 does not hold in two of its clauses. \<^verbatim>\<open>raise_for_status\<close> raises for 400 to
  599 only, so a response with status 300 whose body carries credits 10 and usage
  1 is accepted with balance 9, not answered with an HTTP error. And a parse
  failure is not always answered with the unexpected-error message: when the body
  of a 200 response is not JSON, \<^verbatim>\<open>r.json()\<close> raises the \<^verbatim>\<open>JSONDecodeError\<close> of
  \<^verbatim>\<open>requests\<close>, which is a \<^verbatim>\<open>RequestException\<close>, and the second \<^verbatim>\<open>except\<close> clause
  answers with the network-error message.
\<close>

theorem redirect_is_accepted_and_bad_json_is_network_error:
  "check_api_key_balance sample_lib
     (\<lambda>key. Inr \<lparr>status_code = 300, body_text = ''{\"data\": {\"total_credits\": 10, \"total_usage\": 1}}'',
                 error_line = [],
                 json_body = Inr (JObj [(Str ''data'', JObj [(Str ''total_credits'', JInt 10), (Str ''total_usage'', JInt 1)])])\<rparr>)
     ''sk-or-v1''
   = (True, 9, NoMsg)
 \<and> check_api_key_balance sample_lib
     (\<lambda>key. Inr \<lparr>status_code = 200, body_text = ''<html>'', error_line = [],
                 json_body = Inl (RequestException ''Expecting value: line 1 column 1 (char 0)'')\<rparr>)
     ''sk-or-v1''
   = (False, 0, NetworkErrorMsg ''Expecting value: line 1 column 1 (char 0)'')"
  by (simp add: check_api_key_balance_def read_balance_def raise_for_status_def py_get_default_def
        sample_lib_def)

text \<open>
  C3, amended. \<^verbatim>\<open>check_api_key_balance\<close> maps the response as follows: status 401
  or 403 gives not ok with the invalid-key message; 429 gives not ok with the
  rate-limit message; any other status from 400 to 599 gives not ok with the HTTP
  error message carrying the response text; any other status (2xx, and 1xx and 3xx
  as well) whose body parses gives the balance \<open>total_credits - total_usage\<close> with
  \<open>ok = balance > 0\<close> and no message. A \<open>RequestException\<close> gives not ok with the
  network error message, whether \<^verbatim>\<open>requests.get\<close> raises it or \<^verbatim>\<open>r.json()\<close> does on
  a body that is not JSON. Every other exception raised while the body is read (a
  JSON value of the wrong shape: \<^verbatim>\<open>.get\<close> on a list, \<^verbatim>\<open>float\<close> of a list or of a
  string that is no number) gives not ok with the unexpected-error message.
\<close>

theorem check_api_key_balance_mapping:
  "(net k = Inr r \<and> (status_code r = 401 \<or> status_code r = 403) \<longrightarrow>
      check_api_key_balance L net k = (False, float_zero L, InvalidKeyMsg))
 \<and> (net k = Inr r \<and> status_code r = 429 \<longrightarrow>
      check_api_key_balance L net k = (False, float_zero L, RateLimitedMsg))
 \<and> (net k = Inr r \<and> status_code r \<notin> {401, 403, 429} \<and> 400 \<le> status_code r \<and> status_code r < 600 \<longrightarrow>
      check_api_key_balance L net k = (False, float_zero L, HttpErrorMsg (body_text r)))
 \<and> (net k = Inl (RequestException s) \<longrightarrow>
      check_api_key_balance L net k = (False, float_zero L, NetworkErrorMsg s))
 \<and> (net k = Inr r \<and> \<not> (400 \<le> status_code r \<and> status_code r < 600)
      \<and> json_body r = Inl (RequestException s) \<longrightarrow>
      check_api_key_balance L net k = (False, float_zero L, NetworkErrorMsg s))
 \<and> (net k = Inr r \<and> \<not> (400 \<le> status_code r \<and> status_code r < 600)
      \<and> json_body r = Inr j
      \<and> py_get_default j (Str ''data'') (JObj []) = Inr data
      \<and> py_get_default data (Str ''total_credits'') (JFloat (float_zero L)) = Inr tc
      \<and> py_float L tc = Inr credits
      \<and> py_get_default data (Str ''total_usage'') (JFloat (float_zero L)) = Inr tu
      \<and> py_float L tu = Inr used \<longrightarrow>
      check_api_key_balance L net k =
        (float_gt L (float_sub L credits used) (float_zero L), float_sub L credits used, NoMsg))
 \<and> (net k = Inr r \<and> \<not> (400 \<le> status_code r \<and> status_code r < 600)
      \<and> read_balance L r = Inl x \<and> (\<forall>t s. x \<noteq> HTTPError t s) \<and> (\<forall>s. x \<noteq> RequestException s) \<longrightarrow>
      check_api_key_balance L net k = (False, float_zero L, UnexpectedErrorMsg x))"
proof (intro conjI impI)
  assume "net k = Inr r \<and> (status_code r = 401 \<or> status_code r = 403)"
  then show "check_api_key_balance L net k = (False, float_zero L, InvalidKeyMsg)"
    by (auto simp: check_api_key_balance_def)
next
  assume "net k = Inr r \<and> status_code r = 429"
  then show "check_api_key_balance L net k = (False, float_zero L, RateLimitedMsg)"
    by (simp add: check_api_key_balance_def)
next
  assume "net k = Inr r \<and> status_code r \<notin> {401, 403, 429} \<and> 400 \<le> status_code r \<and> status_code r < 600"
  then show "check_api_key_balance L net k = (False, float_zero L, HttpErrorMsg (body_text r))"
    by (simp add: check_api_key_balance_def read_balance_http_error)
next
  assume "net k = Inl (RequestException s)"
  then show "check_api_key_balance L net k = (False, float_zero L, NetworkErrorMsg s)"
    by (simp add: check_api_key_balance_def)
next
  assume a: "net k = Inr r \<and> \<not> (400 \<le> status_code r \<and> status_code r < 600)
      \<and> json_body r = Inl (RequestException s)"
  then have "read_balance L r = Inl (RequestException s)"
    using read_balance_json_raises [of r "RequestException s" L] by blast
  moreover from a have "status_code r \<noteq> 401 \<and> status_code r \<noteq> 403 \<and> status_code r \<noteq> 429" by auto
  ultimately show "check_api_key_balance L net k = (False, float_zero L, NetworkErrorMsg s)"
    using a by (simp add: check_api_key_balance_def)
next
  assume a: "net k = Inr r \<and> \<not> (400 \<le> status_code r \<and> status_code r < 600)
      \<and> json_body r = Inr j
      \<and> py_get_default j (Str ''data'') (JObj []) = Inr data
      \<and> py_get_default data (Str ''total_credits'') (JFloat (float_zero L)) = Inr tc
      \<and> py_float L tc = Inr credits
      \<and> py_get_default data (Str ''total_usage'') (JFloat (float_zero L)) = Inr tu
      \<and> py_float L tu = Inr used"
  then have "read_balance L r =
     Inr (float_gt L (float_sub L credits used) (float_zero L), float_sub L credits used, NoMsg)"
    using read_balance_parsed [of r j data L tc credits tu used] by blast
  moreover from a have "status_code r \<noteq> 401 \<and> status_code r \<noteq> 403 \<and> status_code r \<noteq> 429" by auto
  ultimately show "check_api_key_balance L net k =
        (float_gt L (float_sub L credits used) (float_zero L), float_sub L credits used, NoMsg)"
    using a by (simp add: check_api_key_balance_def)
next
  assume a: "net k = Inr r \<and> \<not> (400 \<le> status_code r \<and> status_code r < 600)
      \<and> read_balance L r = Inl x \<and> (\<forall>t s. x \<noteq> HTTPError t s) \<and> (\<forall>s. x \<noteq> RequestException s)"
  then have "status_code r \<noteq> 401 \<and> status_code r \<noteq> 403 \<and> status_code r \<noteq> 429" by auto
  with a show "check_api_key_balance L net k = (False, float_zero L, UnexpectedErrorMsg x)"
    by (simp add: check_api_key_balance_def on_exception_other)
qed

theorem check_api_key_balance_mapping_witness:
  "check_api_key_balance sample_lib
     (\<lambda>key. Inr \<lparr>status_code = 401, body_text = ''no'', error_line = [], json_body = Inl (RequestException [])\<rparr>)
     ''sk-or-v1'' = (False, 0, InvalidKeyMsg)
 \<and> check_api_key_balance sample_lib
     (\<lambda>key. Inr \<lparr>status_code = 429, body_text = ''slow down'', error_line = [], json_body = Inl (RequestException [])\<rparr>)
     ''sk-or-v1'' = (False, 0, RateLimitedMsg)
 \<and> check_api_key_balance sample_lib
     (\<lambda>key. Inr \<lparr>status_code = 500, body_text = ''upstream down'', error_line = [], json_body = Inl (RequestException [])\<rparr>)
     ''sk-or-v1'' = (False, 0, HttpErrorMsg ''upstream down'')
 \<and> check_api_key_balance sample_lib (\<lambda>key. Inl (RequestException ''timed out''))
     ''sk-or-v1'' = (False, 0, NetworkErrorMsg ''timed out'')
 \<and> check_api_key_balance sample_lib
     (\<lambda>key. Inr \<lparr>status_code = 200, body_text = ''<html>'', error_line = [],
        json_body = Inl (RequestException ''Expecting value'')\<rparr>)
     ''sk-or-v1'' = (False, 0, NetworkErrorMsg ''Expecting value'')
 \<and> check_api_key_balance sample_lib
     (\<lambda>key. Inr \<lparr>status_code = 200, body_text = [], error_line = [],
        json_body = Inr (JObj [(Str ''data'', JObj [(Str ''total_credits'', JInt 12), (Str ''total_usage'', JInt 2)])])\<rparr>)
     ''sk-or-v1'' = (True, 10, NoMsg)
 \<and> check_api_key_balance sample_lib
     (\<lambda>key. Inr \<lparr>status_code = 200, body_text = ''[]'', error_line = [], json_body = Inr (JArr [])\<rparr>)
     ''sk-or-v1'' = (False, 0, UnexpectedErrorMsg AttributeError)
 \<and> check_api_key_balance sample_lib
     (\<lambda>key. Inr \<lparr>status_code = 200, body_text = ''{\"data\": {\"total_credits\": []}}'', error_line = [],
        json_body = Inr (JObj [(Str ''data'', JObj [(Str ''total_credits'', JArr [])])])\<rparr>)
     ''sk-or-v1'' = (False, 0, UnexpectedErrorMsg TypeError)"
  using
    check_api_key_balance_mapping [where L = sample_lib and k = "''sk-or-v1''"
      and net = "\<lambda>key. Inr \<lparr>status_code = 401, body_text = ''no'', error_line = [], json_body = Inl (RequestException [])\<rparr>"
      and r = "\<lparr>status_code = 401, body_text = ''no'', error_line = [], json_body = Inl (RequestException [])\<rparr>"]
    check_api_key_balance_mapping [where L = sample_lib and k = "''sk-or-v1''"
      and net = "\<lambda>key. Inr \<lparr>status_code = 429, body_text = ''slow down'', error_line = [], json_body = Inl (RequestException [])\<rparr>"
      and r = "\<lparr>status_code = 429, body_text = ''slow down'', error_line = [], json_body = Inl (RequestException [])\<rparr>"]
    check_api_key_balance_mapping [where L = sample_lib and k = "''sk-or-v1''"
      and net = "\<lambda>key. Inr \<lparr>status_code = 500, body_text = ''upstream down'', error_line = [], json_body = Inl (RequestException [])\<rparr>"
      and r = "\<lparr>status_code = 500, body_text = ''upstream down'', error_line = [], json_body = Inl (RequestException [])\<rparr>"]
    check_api_key_balance_mapping [where L = sample_lib and k = "''sk-or-v1''"
      and net = "\<lambda>key. Inl (RequestException ''timed out'')" and s = "''timed out''"]
    check_api_key_balance_mapping [where L = sample_lib and k = "''sk-or-v1''"
      and net = "\<lambda>key. Inr \<lparr>status_code = 200, body_text = ''<html>'', error_line = [],
        json_body = Inl (RequestException ''Expecting value'')\<rparr>"
      and r = "\<lparr>status_code = 200, body_text = ''<html>'', error_line = [],
        json_body = Inl (RequestException ''Expecting value'')\<rparr>"
      and s = "''Expecting value''"]
    check_api_key_balance_mapping [where L = sample_lib and k = "''sk-or-v1''"
      and net = "\<lambda>key. Inr \<lparr>status_code = 200, body_text = [], error_line = [],
        json_body = Inr (JObj [(Str ''data'', JObj [(Str ''total_credits'', JInt 12), (Str ''total_usage'', JInt 2)])])\<rparr>"
      and r = "\<lparr>status_code = 200, body_text = [], error_line = [],
        json_body = Inr (JObj [(Str ''data'', JObj [(Str ''total_credits'', JInt 12), (Str ''total_usage'', JInt 2)])])\<rparr>"
      and j = "JObj [(Str ''data'', JObj [(Str ''total_credits'', JInt 12), (Str ''total_usage'', JInt 2)])]"
      and data = "JObj [(Str ''total_credits'', JInt 12), (Str ''total_usage'', JInt 2)]"
      and tc = "JInt 12" and credits = 12 and tu = "JInt 2" and used = 2]
    check_api_key_balance_mapping [where L = sample_lib and k = "''sk-or-v1''"
      and net = "\<lambda>key. Inr \<lparr>status_code = 200, body_text = ''[]'', error_line = [], json_body = Inr (JArr [])\<rparr>"
      and r = "\<lparr>status_code = 200, body_text = ''[]'', error_line = [], json_body = Inr (JArr [])\<rparr>"
      and x = AttributeError]
    check_api_key_balance_mapping [where L = sample_lib and k = "''sk-or-v1''"
      and net = "\<lambda>key. Inr \<lparr>status_code = 200, body_text = ''{\"data\": {\"total_credits\": []}}'', error_line = [],
        json_body = Inr (JObj [(Str ''data'', JObj [(Str ''total_credits'', JArr [])])])\<rparr>"
      and r = "\<lparr>status_code = 200, body_text = ''{\"data\": {\"total_credits\": []}}'', error_line = [],
        json_body = Inr (JObj [(Str ''data'', JObj [(Str ''total_credits'', JArr [])])])\<rparr>"
      and x = TypeError]
  by (simp add: sample_lib_def py_get_default_def read_balance_def raise_for_status_def)

section \<open>Submitting a PIN\<close>

lemma ascii_digits_pass:
  assumes "length s = 4" and "\<forall>c \<in> set s. c \<in> set ''0123456789''"
  shows "py_strip s = s" and "py_isdigit s"
proof -
  have d: "\<And>c. c \<in> set ''0123456789'' \<Longrightarrow> py_isdigit_char c \<and> \<not> py_isspace c"
    by (auto simp: py_isdigit_char_def py_isspace_def)
  from assms(1) obtain a b c e where s: "s = [a, b, c, e]"
    by (auto simp: length_Suc_conv numeral_eq_Suc)
  with assms(2) have m: "a \<in> set ''0123456789''" "b \<in> set ''0123456789''"
      "c \<in> set ''0123456789''" "e \<in> set ''0123456789''" by simp_all
  from m d show "py_strip s = s" by (simp add: s py_strip_def)
  from m d show "py_isdigit s" by (simp add: s py_isdigit_def)
qed

text \<open>
  C4 does not hold as stated: the handler strips white space first and tests the
  rest with \<^verbatim>\<open>str.isdigit\<close>, which accepts digits outside ASCII. The five
  characters \<^verbatim>\<open>" 1234"\<close> and the four characters 1, 2, 3, U+00B2 both pass the format
  test and reach \<^verbatim>\<open>verify_pin\<close>, which answers with the wrong-PIN message here.
\<close>

theorem padded_and_superscript_pins_reach_verification:
  "on_login_click sample_lib
     \<lparr>mode = Pin, api_key_tf = None, pin_tf = Some '' 1234'', msg = NoMsg, progress = False,
      dialog = None, handed_over = [], store = \<lparr>writable = True, db_file = Missing\<rparr>\<rparr>
   = Done \<lparr>mode = Pin, api_key_tf = None, pin_tf = Some '' 1234'', msg = WrongPinMsg, progress = False,
      dialog = None, handed_over = [], store = \<lparr>writable = True, db_file = Missing\<rparr>\<rparr>
 \<and> on_login_click sample_lib
     \<lparr>mode = Pin, api_key_tf = None, pin_tf = Some [CHR ''1'', CHR ''2'', CHR ''3'', CHR 0xB2],
      msg = NoMsg, progress = False,
      dialog = None, handed_over = [], store = \<lparr>writable = True, db_file = Missing\<rparr>\<rparr>
   = Done \<lparr>mode = Pin, api_key_tf = None, pin_tf = Some [CHR ''1'', CHR ''2'', CHR ''3'', CHR 0xB2],
      msg = WrongPinMsg, progress = False,
      dialog = None, handed_over = [], store = \<lparr>writable = True, db_file = Missing\<rparr>\<rparr>"
  by (simp add: on_login_click_def field_text_def py_strip_def py_isspace_def py_isdigit_def
        py_isdigit_char_def verify_pin_def get_credentials_def load_db_def truthy_opt_def)

text \<open>
  C4, amended. When the text of the PIN field, stripped of surrounding white space,
  is not exactly four characters that \<^verbatim>\<open>str.isdigit\<close> accepts, \<^verbatim>\<open>on_login_click\<close>
  sets the enter-a-4-digit-PIN message and returns: the result is the same whatever
  the store holds, the store and the mode are unchanged and \<^verbatim>\<open>on_success\<close> is not
  called. Only a text that passes this test reaches \<^verbatim>\<open>verify_pin\<close>, whose answer
  then decides the outcome; every text of exactly four ASCII digits passes it.
\<close>

theorem on_login_click_format:
  "(length (field_text (pin_tf g)) \<noteq> 4 \<or> \<not> py_isdigit (field_text (pin_tf g)) \<longrightarrow>
      on_login_click L (g\<lparr>store := e\<rparr>) = Done (g\<lparr>store := e, msg := EnterPinMsg\<rparr>))
 \<and> (length (field_text (pin_tf g)) = 4 \<and> py_isdigit (field_text (pin_tf g)) \<longrightarrow>
      on_login_click L g =
        (case verify_pin L (field_text (pin_tf g)) (store g) of
           Inl x \<Rightarrow> Raised x g
         | Inr False \<Rightarrow> Done (g\<lparr>msg := WrongPinMsg\<rparr>)
         | Inr True \<Rightarrow>
             (case get_credentials (store g) of
                Inl x \<Rightarrow> Raised x g
              | Inr (a, h, s) \<Rightarrow> Done (g\<lparr>handed_over := handed_over g @ [a]\<rparr>))))
 \<and> (length p = 4 \<and> (\<forall>c \<in> set p. c \<in> set ''0123456789'') \<longrightarrow>
      length (field_text (Some p)) = 4 \<and> py_isdigit (field_text (Some p)))"
proof (intro conjI impI)
  assume "length (field_text (pin_tf g)) \<noteq> 4 \<or> \<not> py_isdigit (field_text (pin_tf g))"
  then show "on_login_click L (g\<lparr>store := e\<rparr>) = Done (g\<lparr>store := e, msg := EnterPinMsg\<rparr>)"
    by (auto simp: on_login_click_def Let_def)
next
  assume "length (field_text (pin_tf g)) = 4 \<and> py_isdigit (field_text (pin_tf g))"
  then show "on_login_click L g =
        (case verify_pin L (field_text (pin_tf g)) (store g) of
           Inl x \<Rightarrow> Raised x g
         | Inr False \<Rightarrow> Done (g\<lparr>msg := WrongPinMsg\<rparr>)
         | Inr True \<Rightarrow>
             (case get_credentials (store g) of
                Inl x \<Rightarrow> Raised x g
              | Inr (a, h, s) \<Rightarrow> Done (g\<lparr>handed_over := handed_over g @ [a]\<rparr>)))"
    by (simp add: on_login_click_def Let_def)
next
  assume a: "length p = 4 \<and> (\<forall>c \<in> set p. c \<in> set ''0123456789'')"
  then have "field_text (Some p) = p" using ascii_digits_pass(1) [of p] by (simp add: field_text_def)
  then show "length (field_text (Some p)) = 4" using a by simp
next
  assume a: "length p = 4 \<and> (\<forall>c \<in> set p. c \<in> set ''0123456789'')"
  then have "field_text (Some p) = p" using ascii_digits_pass(1) [of p] by (simp add: field_text_def)
  then show "py_isdigit (field_text (Some p))" using a ascii_digits_pass(2) [of p] by simp
qed

theorem on_login_click_format_witness:
  "on_login_click sample_lib
     \<lparr>mode = Pin, api_key_tf = None, pin_tf = Some ''12a4'', msg = NoMsg, progress = False,
      dialog = None, handed_over = [], store = \<lparr>writable = True, db_file = Missing\<rparr>\<rparr>
   = Done \<lparr>mode = Pin, api_key_tf = None, pin_tf = Some ''12a4'', msg = EnterPinMsg, progress = False,
      dialog = None, handed_over = [], store = \<lparr>writable = True, db_file = Missing\<rparr>\<rparr>
 \<and> on_login_click sample_lib
     \<lparr>mode = Pin, api_key_tf = None, pin_tf = Some ''123'', msg = NoMsg, progress = False,
      dialog = None, handed_over = [], store = \<lparr>writable = True, db_file = Missing\<rparr>\<rparr>
   = Done \<lparr>mode = Pin, api_key_tf = None, pin_tf = Some ''123'', msg = EnterPinMsg, progress = False,
      dialog = None, handed_over = [], store = \<lparr>writable = True, db_file = Missing\<rparr>\<rparr>
 \<and> length (field_text (Some ''4821'')) = 4 \<and> py_isdigit (field_text (Some ''4821''))"
  using
    on_login_click_format [where L = sample_lib and p = "''4821''"
      and e = "\<lparr>writable = True, db_file = Missing\<rparr>"
      and g = "\<lparr>mode = Pin, api_key_tf = None, pin_tf = Some ''12a4'', msg = NoMsg, progress = False,
      dialog = None, handed_over = [], store = \<lparr>writable = True, db_file = Missing\<rparr>\<rparr>"]
    on_login_click_format [where L = sample_lib and p = "''4821''"
      and e = "\<lparr>writable = True, db_file = Missing\<rparr>"
      and g = "\<lparr>mode = Pin, api_key_tf = None, pin_tf = Some ''123'', msg = NoMsg, progress = False,
      dialog = None, handed_over = [], store = \<lparr>writable = True, db_file = Missing\<rparr>\<rparr>"]
  by (simp add: field_text_def py_strip_def py_isspace_def py_isdigit_def py_isdigit_char_def)

section \<open>Submitting a key\<close>







end
